theory Spec2Isabelle
  imports Main "HOL-Library.AList"
begin

section \<open>Python objects, values and errors\<close>

text \<open>
  Objects are referred to by identity.  The kinds are the ones \<open>links.py\<close> tells apart:
  a panel \<open>Viewable\<close>, a bokeh \<open>Model\<close>, a HoloViews bokeh element plot
  (\<open>is_bokeh_element_plot\<close>), another \<open>param.Parameterized\<close> object, and any
  other object.
\<close>

datatype ref = View nat | Model nat | Plot nat | Param nat | Other nat

datatype val = VNone | VInt int | VStr string | VRef ref | VDict "(string \<times> string) list"

datatype error = ValueError | AttributeError | TypeError | KeyError | UnboundLocalError

text \<open>The two classes of declarations: \<open>Callback\<close> and its subclass \<open>Link\<close>.\<close>

datatype cls = CallbackC | LinkC

text \<open>\<open>_requires_target\<close>: \<open>False\<close> on \<open>Callback\<close>, \<open>True\<close> on \<open>Link\<close>.\<close>

definition requires_target :: "cls \<Rightarrow> bool" where
  "requires_target k = (case k of CallbackC \<Rightarrow> False | LinkC \<Rightarrow> True)"

text \<open>
  An instance.  \<open>cid\<close> is Python's \<open>id(self)\<close>; \<open>source\<close> and \<open>target\<close> are the
  dereferenced weak references (\<open>None\<close> once the object is gone); \<open>target\<close> is stored by
  \<open>Link.__init__\<close> only.  A Python dict is an association list with distinct keys, in
  insertion order.
\<close>

record callback =
  cid :: nat
  ctype :: cls
  source :: "ref option"
  target :: "ref option"
  name :: string
  args :: "(string \<times> val) list"
  code :: "(string \<times> string) list option"
  properties :: "(string \<times> string) list"

text \<open>The registry: \<open>weakref.WeakKeyDictionary\<close> from a source object to its list.\<close>

type_synonym registry = "ref \<Rightarrow> callback list option"

section \<open>Parameter values and their comparison\<close>

datatype pval =
    PName string
  | PArgs "(string \<times> val) list"
  | PCode "(string \<times> string) list option"
  | PProps "(string \<times> string) list"

text \<open>\<open>get_param_values()\<close>: \<open>properties\<close> is a parameter of \<open>Link\<close> only.\<close>

definition get_param_values :: "callback \<Rightarrow> (string \<times> pval) list" where
  "get_param_values c =
     [(''args'', PArgs (args c)), (''code'', PCode (code c)), (''name'', PName (name c))]
     @ (if ctype c = LinkC then [(''properties'', PProps (properties c))] else [])"

text \<open>\<open>{k: v for k, v in self.get_param_values() if k != 'name'}\<close>\<close>

definition params_no_name :: "callback \<Rightarrow> (string \<times> pval) list" where
  "params_no_name c = filter (\<lambda>kv. fst kv \<noteq> ''name'') (get_param_values c)"

text \<open>Python's \<open>==\<close> on dicts: the same keys, bound to equal values.\<close>

definition dict_eq :: "('v \<Rightarrow> 'v \<Rightarrow> bool) \<Rightarrow> (string \<times> 'v) list \<Rightarrow> (string \<times> 'v) list \<Rightarrow> bool" where
  "dict_eq veq a b =
     (set (map fst a) = set (map fst b) \<and>
      list_all (\<lambda>k. case (map_of a k, map_of b k) of
                       (Some x, Some y) \<Rightarrow> veq x y
                     | _ \<Rightarrow> False) (map fst a))"

fun pval_eq :: "pval \<Rightarrow> pval \<Rightarrow> bool" where
  "pval_eq (PName a) (PName b) = (a = b)"
| "pval_eq (PArgs a) (PArgs b) = dict_eq (=) a b"
| "pval_eq (PCode None) (PCode None) = True"
| "pval_eq (PCode (Some a)) (PCode (Some b)) = dict_eq (=) a b"
| "pval_eq (PProps a) (PProps b) = dict_eq (=) a b"
| "pval_eq _ _ = False"

section \<open>Registration: \<open>Callback.init\<close>, \<open>Link.link\<close>, \<open>Link.unlink\<close>\<close>

text \<open>
  Reading \<open>.target\<close>: the property is defined on \<open>Link\<close>; \<open>Callback\<close> has no such
  attribute.
\<close>

definition target_attr :: "callback \<Rightarrow> error + ref option" where
  "target_attr c = (if ctype c = LinkC then Inr (target c) else Inl AttributeError)"

text \<open>
  The loop over \<open>links\<close> in \<open>init\<close>, with the condition evaluated left to right as
  \<open>and\<close> does.  \<open>Inr True\<close>: an equivalent entry was found (the early \<open>return\<close>).
\<close>

fun scan :: "callback \<Rightarrow> callback list \<Rightarrow> error + bool" where
  "scan self [] = Inr False"
| "scan self (l # links) =
     (if ctype l = ctype self \<and> source l = source self then
        (case target_attr l of
           Inl e \<Rightarrow> Inl e
         | Inr lt \<Rightarrow>
            (case target_attr self of
               Inl e \<Rightarrow> Inl e
             | Inr st \<Rightarrow>
                if lt = st \<and> dict_eq pval_eq (params_no_name self) (params_no_name l)
                then Inr True
                else scan self links))
      else scan self links)"

text \<open>
  The body of \<open>init\<close>.  \<open>None in registry\<close> is \<open>False\<close> and \<open>registry[None] = ...\<close>
  raises \<open>TypeError\<close> (no weak reference to \<open>None\<close>).  The result is the registry as
  the call leaves it, with the outcome.
\<close>

definition init :: "registry \<Rightarrow> callback \<Rightarrow> registry \<times> (error + unit)" where
  "init reg self =
     (case source self of
        None \<Rightarrow> (reg, Inl TypeError)
      | Some s \<Rightarrow>
         (case reg s of
            None \<Rightarrow> (reg(s \<mapsto> [self]), Inr ())
          | Some links \<Rightarrow>
             (case scan self links of
                Inl e \<Rightarrow> (reg, Inl e)
              | Inr True \<Rightarrow> (reg, Inr ())
              | Inr False \<Rightarrow> (reg(s \<mapsto> links @ [self]), Inr ()))))"

text \<open>\<open>Link.link\<close>: \<open>self.init()\<close>, then the same statements once more.\<close>

definition link :: "registry \<Rightarrow> callback \<Rightarrow> registry \<times> (error + unit)" where
  "link reg self =
     (if ctype self \<noteq> LinkC then (reg, Inl AttributeError)
      else case init reg self of
        (reg1, Inl e) \<Rightarrow> (reg1, Inl e)
      | (reg1, Inr u) \<Rightarrow> init reg1 self)"

text \<open>
  \<open>Callback.__init__\<close> and \<open>Link.__init__\<close>.  \<open>Link.__init__\<close> checks the target and
  stores it, then calls \<open>Callback.__init__\<close>, which checks the source, drops its own
  \<open>target\<close> argument and calls \<open>init\<close>.
\<close>

definition new_instance ::
  "cls \<Rightarrow> nat \<Rightarrow> ref option \<Rightarrow> ref option \<Rightarrow> string \<Rightarrow> (string \<times> val) list \<Rightarrow>
   (string \<times> string) list option \<Rightarrow> (string \<times> string) list \<Rightarrow> callback" where
  "new_instance k i src tgt nm a c p =
     \<lparr>cid = i, ctype = k, source = src, target = (if k = LinkC then tgt else None),
      name = nm, args = a, code = c, properties = p\<rparr>"

definition construct ::
  "registry \<Rightarrow> cls \<Rightarrow> nat \<Rightarrow> ref option \<Rightarrow> ref option \<Rightarrow> string \<Rightarrow> (string \<times> val) list \<Rightarrow>
   (string \<times> string) list option \<Rightarrow> (string \<times> string) list \<Rightarrow> registry \<times> (error + callback)" where
  "construct reg k i src tgt nm a c p =
     (if k = LinkC \<and> requires_target k \<and> tgt = None then (reg, Inl ValueError)
      else if src = None then (reg, Inl ValueError)
      else case init reg (new_instance k i src tgt nm a c p) of
        (reg1, Inl e) \<Rightarrow> (reg1, Inl e)
      | (reg1, Inr u) \<Rightarrow> (reg1, Inr (new_instance k i src tgt nm a c p)))"

text \<open>
  \<open>self in links\<close> and \<open>links.index(self)\<close> compare by identity (no \<open>__eq__\<close> is
  defined); \<open>links.pop(i)\<close> removes that one position.
\<close>

definition contains_obj :: "callback \<Rightarrow> callback list \<Rightarrow> bool" where
  "contains_obj self links = list_ex (\<lambda>x. cid x = cid self) links"

fun pop_first :: "callback \<Rightarrow> callback list \<Rightarrow> callback list" where
  "pop_first self [] = []"
| "pop_first self (x # xs) = (if cid x = cid self then xs else x # pop_first self xs)"

text \<open>
  \<open>Link.unlink\<close>.  \<open>registry.get(None)\<close> raises \<open>TypeError\<close>; with no list for the
  source, \<open>links\<close> is \<open>None\<close> and \<open>self in links\<close> raises \<open>TypeError\<close>.
\<close>

definition unlink :: "registry \<Rightarrow> callback \<Rightarrow> registry \<times> (error + unit)" where
  "unlink reg self =
     (if ctype self \<noteq> LinkC then (reg, Inl AttributeError)
      else case source self of
        None \<Rightarrow> (reg, Inl TypeError)
      | Some s \<Rightarrow>
         (case reg s of
            None \<Rightarrow> (reg, Inl TypeError)
          | Some links \<Rightarrow>
             if contains_obj self links then (reg(s \<mapsto> pop_first self links), Inr ())
             else (reg, Inr ())))"

text \<open>
  The equivalence of the deduplication, in the words of the specification: the same
  concrete type, the same source, the same target and equal parameter values other than
  the name.
\<close>

definition equivalent :: "callback \<Rightarrow> callback \<Rightarrow> bool" where
  "equivalent a b \<longleftrightarrow>
     ctype a = ctype b \<and> source a = source b \<and> target a = target b \<and>
     dict_eq pval_eq (params_no_name a) (params_no_name b)"

subsection \<open>Example instances\<close>

definition ex_cb1 :: callback where
  "ex_cb1 = new_instance CallbackC 1 (Some (View 0)) None ''Callback00001''
              [(''a'', VInt 1)] (Some [(''value'', ''console.log(1)'')]) []"

definition ex_lk1 :: callback where
  "ex_lk1 = new_instance LinkC 11 (Some (View 0)) (Some (View 1)) ''Link00011''
              [] None [(''value'', ''text'')]"

definition ex_lk2 :: callback where
  "ex_lk2 = new_instance LinkC 12 (Some (View 0)) (Some (View 2)) ''Link00012''
              [] None [(''value'', ''text'')]"

definition ex_lk3 :: callback where
  "ex_lk3 = new_instance LinkC 13 (Some (View 0)) (Some (View 3)) ''Link00013''
              [] None [(''value'', ''text'')]"


section \<open>The rendered world\<close>

text \<open>
  \<open>CustomJS(args=references, code=code, tags=[link_id])\<close>.
\<close>

record customjs =
  cj_args :: "(string \<times> val) list"
  cj_code :: string
  cj_tags :: "nat list"

text \<open>
  Everything a resolution pass reads or writes.  The registry is a field of the state, so
  that what the pass does to it can be stated.  The other fields stand for the objects
  \<open>links.py\<close> works on, whose classes live outside it:
  \<^item> \<open>holoviews_loaded\<close>: \<open>'holoviews' in sys.modules\<close>;
  \<^item> \<open>select_viewable v\<close>: \<open>root_view.select(Viewable)\<close> for the view \<open>v\<close>;
    \<open>select_models m\<close>: \<open>root_model.select({'type': BkModel})\<close>;
  \<^item> \<open>panel_bokeh_map k\<close>: \<open>generate_panel_bokeh_map(root_model, hv_views).get(k, [])\<close>;
  \<^item> \<open>view_models v r\<close>: the model of \<open>obj._models[r]\<close>, \<open>r\<close> being
    \<open>root_model.ref['id']\<close>; \<open>view_plots v r\<close>: \<open>obj._plots[r][0]\<close>;
    \<open>view_reactive\<close>, \<open>view_holoviews\<close>: \<open>isinstance(obj, Reactive)\<close>,
    \<open>isinstance(obj, HoloViews)\<close>; \<open>view_rename\<close>: \<open>obj._rename\<close>;
  \<^item> \<open>plot_state\<close>, \<open>plot_handles\<close>: \<open>obj.state\<close>, \<open>obj.handles\<close> of an element plot;
  \<^item> \<open>attrs m\<close>: the properties of the bokeh model \<open>m\<close> with their values;
    \<open>js_property_callbacks m\<close>: its dict from event name to the callbacks attached.
\<close>

record state =
  registry :: registry
  holoviews_loaded :: bool
  select_viewable :: "nat \<Rightarrow> ref list"
  select_models :: "nat \<Rightarrow> ref list"
  panel_bokeh_map :: "val \<Rightarrow> ref list"
  view_models :: "nat \<Rightarrow> nat \<Rightarrow> val option"
  view_plots :: "nat \<Rightarrow> nat \<Rightarrow> val option"
  view_reactive :: "nat \<Rightarrow> bool"
  view_holoviews :: "nat \<Rightarrow> bool"
  view_rename :: "nat \<Rightarrow> string \<Rightarrow> string option"
  plot_state :: "nat \<Rightarrow> val"
  plot_handles :: "nat \<Rightarrow> (string \<times> val) list"
  attrs :: "nat \<Rightarrow> string \<Rightarrow> val option"
  js_property_callbacks :: "nat \<Rightarrow> (string \<times> customjs list) list"

text \<open>An optional object as a value.\<close>

definition oval :: "ref option \<Rightarrow> val" where
  "oval r = (case r of None \<Rightarrow> VNone | Some x \<Rightarrow> VRef x)"

text \<open>
  Modelled from the spec: \<open>is_bokeh_element_plot\<close> (module \<open>pane.holoviews\<close>) recognises
  the plot handle type.
\<close>

definition is_bokeh_element_plot :: "val \<Rightarrow> bool" where
  "is_bokeh_element_plot v = (case v of VRef (Plot p) \<Rightarrow> True | _ \<Rightarrow> False)"

text \<open>\<open>isinstance(v, BkModel)\<close> and \<open>isinstance(v, param.Parameterized)\<close>.\<close>

definition is_bkmodel :: "val \<Rightarrow> bool" where
  "is_bkmodel v = (case v of VRef (Model m) \<Rightarrow> True | _ \<Rightarrow> False)"

definition is_parameterized :: "val \<Rightarrow> bool" where
  "is_parameterized v =
     (case v of VRef (View n) \<Rightarrow> True | VRef (Plot n) \<Rightarrow> True | VRef (Param n) \<Rightarrow> True | _ \<Rightarrow> False)"

text \<open>Python truth values.\<close>

definition truthy :: "val \<Rightarrow> bool" where
  "truthy v = (case v of VNone \<Rightarrow> False | VInt i \<Rightarrow> i \<noteq> 0 | VStr s \<Rightarrow> s \<noteq> []
                | VRef r \<Rightarrow> True | VDict d \<Rightarrow> d \<noteq> [])"

definition code_truthy :: "(string \<times> string) list option \<Rightarrow> bool" where
  "code_truthy c = (case c of None \<Rightarrow> False | Some d \<Rightarrow> d \<noteq> [])"

section \<open>Strings: \<open>split('.')\<close> and \<open>'.'.join\<close>\<close>

fun split_dot :: "string \<Rightarrow> string list" where
  "split_dot [] = [[]]"
| "split_dot (c # cs) =
     (if c = CHR ''.'' then [] # split_dot cs
      else case split_dot cs of [] \<Rightarrow> [[c]] | w # ws \<Rightarrow> (c # w) # ws)"

fun join_dot :: "string list \<Rightarrow> string" where
  "join_dot [] = []"
| "join_dot [x] = x"
| "join_dot (x # y # ys) = x @ ''.'' @ join_dot (y # ys)"

section \<open>\<open>CallbackGenerator._resolve_model\<close>\<close>

text \<open>
  \<open>getattr\<close> and \<open>setattr\<close> on a resolved value.  A bokeh model has the properties
  \<open>attrs\<close> lists and refuses other names; the values that are not bokeh models are
  taken to have no attributes.
\<close>

definition py_getattr :: "state \<Rightarrow> val \<Rightarrow> string \<Rightarrow> error + val" where
  "py_getattr st model a =
     (case model of
        VRef (Model m) \<Rightarrow> (case attrs st m a of None \<Rightarrow> Inl AttributeError | Some v \<Rightarrow> Inr v)
      | _ \<Rightarrow> Inl AttributeError)"

definition py_setattr :: "state \<Rightarrow> val \<Rightarrow> string \<Rightarrow> val \<Rightarrow> state \<times> (error + unit)" where
  "py_setattr st model a v =
     (case model of
        VRef (Model m) \<Rightarrow>
          (case attrs st m a of
             None \<Rightarrow> (st, Inl AttributeError)
           | Some old \<Rightarrow> (st\<lparr>attrs := (attrs st)(m := (attrs st m)(a \<mapsto> v))\<rparr>, Inr ()))
      | _ \<Rightarrow> (st, Inl AttributeError))"

text \<open>\<open>for spec in model_spec.split('.'): model = getattr(model, spec)\<close>\<close>

fun drill :: "state \<Rightarrow> val \<Rightarrow> string list \<Rightarrow> error + val" where
  "drill st model [] = Inr model"
| "drill st model (spec # specs) =
     (case py_getattr st model spec of Inl e \<Rightarrow> Inl e | Inr v \<Rightarrow> drill st v specs)"

definition drill_spec :: "state \<Rightarrow> val \<Rightarrow> string option \<Rightarrow> error + val" where
  "drill_spec st model model_spec =
     (case model_spec of None \<Rightarrow> Inr model | Some s \<Rightarrow> drill st model (split_dot s))"

definition resolve_model :: "state \<Rightarrow> nat \<Rightarrow> val \<Rightarrow> string option \<Rightarrow> error + val" where
  "resolve_model st root obj model_spec =
     (case obj of
        VRef (Plot p) \<Rightarrow>
          if holoviews_loaded st then
            (case model_spec of
               None \<Rightarrow> Inr (plot_state st p)
             | Some s \<Rightarrow>
                (case split_dot s of
                   [] \<Rightarrow> Inl KeyError
                 | handle_spec # rest \<Rightarrow>
                    (case map_of (plot_handles st p) handle_spec of
                       None \<Rightarrow> Inl KeyError
                     | Some model \<Rightarrow>
                        drill_spec st model (if rest \<noteq> [] then Some (join_dot rest) else None))))
          else drill_spec st VNone model_spec
      | VRef (View v) \<Rightarrow>
          (case view_models st v root of
             None \<Rightarrow> Inl KeyError
           | Some model \<Rightarrow> drill_spec st model model_spec)
      | VRef (Model m) \<Rightarrow> drill_spec st obj model_spec
      | _ \<Rightarrow> drill_spec st VNone model_spec)"

section \<open>\<open>_get_specs\<close>\<close>

text \<open>A spec is the pair (path before the last segment or \<open>None\<close>, last segment).\<close>

type_synonym spec = "string option \<times> string option"

text \<open>
  The statements that turn one property path into a spec; \<open>obj\<close> is the source or the
  target, renamed through \<open>_rename\<close> when it is a \<open>Reactive\<close>.
\<close>

definition rename_prop :: "state \<Rightarrow> val \<Rightarrow> string \<Rightarrow> string" where
  "rename_prop st obj prop =
     (case obj of
        VRef (View v) \<Rightarrow>
          if view_reactive st v then (case view_rename st v prop of None \<Rightarrow> prop | Some r \<Rightarrow> r)
          else prop
      | _ \<Rightarrow> prop)"

definition path_spec :: "state \<Rightarrow> val \<Rightarrow> string \<Rightarrow> spec" where
  "path_spec st obj s =
     (let specs = split_dot s in
      if length specs > 1 then (Some (join_dot (butlast specs)), Some (last specs))
      else (None, Some (rename_prop st obj (hd specs))))"

text \<open>
  \<open>JSCallbackGenerator._get_specs\<close>.  The loop only rebinds \<open>src_spec\<close> and \<open>code\<close>;
  the \<open>return\<close> follows the loop.  The accumulator is the binding of the two variables,
  \<open>None\<close> while they are unbound.
\<close>

fun js_specs_loop ::
  "state \<Rightarrow> val \<Rightarrow> (string \<times> string) list \<Rightarrow> (spec \<times> string) option \<Rightarrow> (spec \<times> string) option" where
  "js_specs_loop st srcobj [] bound = bound"
| "js_specs_loop st srcobj ((s, c) # items) bound =
     js_specs_loop st srcobj items (Some (path_spec st srcobj s, c))"

definition js_get_specs ::
  "state \<Rightarrow> callback \<Rightarrow> val \<Rightarrow> val \<Rightarrow> error + (spec \<times> spec \<times> string option) list" where
  "js_get_specs st lnk srcobj tgt =
     (case code lnk of
        None \<Rightarrow> Inl AttributeError
      | Some items \<Rightarrow>
         (case js_specs_loop st srcobj items None of
            None \<Rightarrow> Inl UnboundLocalError
          | Some (src_spec, c) \<Rightarrow> Inr [(src_spec, (None, None), Some c)]))"

text \<open>\<open>JSLinkCallbackGenerator._get_specs\<close>\<close>

definition jslink_get_specs ::
  "state \<Rightarrow> callback \<Rightarrow> val \<Rightarrow> val \<Rightarrow> error + (spec \<times> spec \<times> string option) list" where
  "jslink_get_specs st lnk srcobj tgt =
     (if code_truthy (code lnk) then js_get_specs st lnk srcobj tgt
      else Inr (map (\<lambda>(s, t). (path_spec st srcobj s, path_spec st tgt t, None)) (properties lnk)))"

text \<open>The generator classes and \<open>Callback._callbacks\<close> as the module fills it.\<close>

datatype gen = JSCallbackGenerator | JSLinkCallbackGenerator

definition callbacks_table :: "cls \<Rightarrow> gen" where
  "callbacks_table k = (case k of CallbackC \<Rightarrow> JSCallbackGenerator | LinkC \<Rightarrow> JSLinkCallbackGenerator)"

definition get_specs ::
  "gen \<Rightarrow> state \<Rightarrow> callback \<Rightarrow> val \<Rightarrow> val \<Rightarrow> error + (spec \<times> spec \<times> string option) list" where
  "get_specs g st lnk srcobj tgt =
     (case g of
        JSCallbackGenerator \<Rightarrow> js_get_specs st lnk srcobj tgt
      | JSLinkCallbackGenerator \<Rightarrow> jslink_get_specs st lnk srcobj tgt)"

section \<open>\<open>CallbackGenerator._init_callback\<close>\<close>

text \<open>
  \<open>references\<close> starts from the parameter values other than \<open>source\<close>, \<open>target\<close>,
  \<open>name\<close>, \<open>code\<close> and \<open>args\<close>: for a \<open>Link\<close> that is \<open>properties\<close>, for a
  \<open>Callback\<close> nothing.
\<close>

definition base_references :: "callback \<Rightarrow> (string \<times> val) list" where
  "base_references lnk =
     (if ctype lnk = LinkC then [(''properties'', VDict (properties lnk))] else [])"

text \<open>
  The deduplication guard:
  \<open>any(link_id in cb.tags for cbs in src_model.js_property_callbacks.values() for cb in cbs)\<close>.
\<close>

definition tagged :: "state \<Rightarrow> nat \<Rightarrow> nat \<Rightarrow> bool" where
  "tagged st m link_id =
     list_ex (\<lambda>ecbs. list_ex (\<lambda>cb. link_id \<in> set (cj_tags cb)) (snd ecbs)) (js_property_callbacks st m)"

text \<open>\<open>dict(link.args, **self.arg_overrides)\<close>\<close>

definition dict_merge :: "(string \<times> val) list \<Rightarrow> (string \<times> val) list \<Rightarrow> (string \<times> val) list" where
  "dict_merge a b = fold (\<lambda>kv d. AList.update (fst kv) (snd kv) d) b a"

text \<open>The loop over the merged arguments.\<close>

fun args_loop ::
  "state \<Rightarrow> nat \<Rightarrow> (string \<times> val) list \<Rightarrow> (string \<times> val) list \<Rightarrow> error + (string \<times> val) list" where
  "args_loop st root [] refs = Inr refs"
| "args_loop st root ((k, v) # kvs) refs =
     (case resolve_model st root v None of
        Inl e \<Rightarrow> Inl e
      | Inr arg_model \<Rightarrow>
          args_loop st root kvs
            (if arg_model \<noteq> VNone then AList.update k arg_model refs
             else if \<not> is_parameterized v then AList.update k v refs
             else refs))"

text \<open>
  The loops over the handles of an element plot: a handle that is a bokeh model is added
  under its prefixed name unless that name is taken.
\<close>

fun handles_loop :: "string \<Rightarrow> (string \<times> val) list \<Rightarrow> (string \<times> val) list \<Rightarrow> (string \<times> val) list" where
  "handles_loop prefix [] refs = refs"
| "handles_loop prefix ((k, v) # kvs) refs =
     handles_loop prefix kvs
       (if is_bkmodel v \<and> (prefix @ k) \<notin> set (map fst refs)
        then AList.update (prefix @ k) v refs else refs)"

text \<open>\<open>source._plots[ref][0] if isinstance(source, HoloViews) else source\<close>\<close>

definition plot_of :: "state \<Rightarrow> nat \<Rightarrow> val \<Rightarrow> error + val" where
  "plot_of st root obj =
     (case obj of
        VRef (View v) \<Rightarrow>
          if view_holoviews st v
          then (case view_plots st v root of None \<Rightarrow> Inl KeyError | Some p \<Rightarrow> Inr p)
          else Inr obj
      | _ \<Rightarrow> Inr obj)"

definition plot_handles_of :: "state \<Rightarrow> val \<Rightarrow> (string \<times> val) list" where
  "plot_handles_of st v = (case v of VRef (Plot p) \<Rightarrow> plot_handles st p | _ \<Rightarrow> [])"

definition merge_handles ::
  "state \<Rightarrow> nat \<Rightarrow> callback \<Rightarrow> val \<Rightarrow> val \<Rightarrow> (string \<times> val) list \<Rightarrow> error + (string \<times> val) list" where
  "merge_handles st root lnk srcobj tgt refs =
     (if \<not> holoviews_loaded st then Inr refs
      else case plot_of st root srcobj of
        Inl e \<Rightarrow> Inl e
      | Inr src \<Rightarrow>
         (let prefix = (if ctype lnk = LinkC then ''source_'' else '''');
              refs1 = (if is_bokeh_element_plot src
                       then handles_loop prefix (plot_handles_of st src) refs else refs)
          in case plot_of st root tgt of
               Inl e \<Rightarrow> Inl e
             | Inr tg \<Rightarrow>
                 Inr (if is_bokeh_element_plot tg
                      then handles_loop ''target_'' (plot_handles_of st tg) refs1 else refs1)))"

text \<open>
  The references as \<open>_init_callback\<close> holds them when it calls \<open>_initialize_models\<close>,
  with the target model resolved on the way (\<open>None\<close> when the link requires no target).
\<close>

definition build_references ::
  "state \<Rightarrow> nat \<Rightarrow> callback \<Rightarrow> val \<Rightarrow> val \<Rightarrow> val \<Rightarrow> spec \<Rightarrow> (string \<times> val) list \<Rightarrow>
   error + (val \<times> (string \<times> val) list)" where
  "build_references st root lnk srcobj src_model tgt tgt_spec arg_overrides =
     (let refs0 = AList.update ''cb_obj'' src_model
                    (AList.update ''source'' src_model (base_references lnk))
      in case (if requires_target (ctype lnk)
               then (case resolve_model st root tgt (fst tgt_spec) of
                       Inl e \<Rightarrow> Inl e
                     | Inr tgt_model \<Rightarrow>
                         Inr (tgt_model,
                              if tgt_model \<noteq> VNone then AList.update ''target'' tgt_model refs0
                              else refs0))
               else Inr (VNone, refs0)) of
           Inl e \<Rightarrow> Inl e
         | Inr (tgt_model, refs1) \<Rightarrow>
            (case args_loop st root (dict_merge (args lnk) arg_overrides) refs1 of
               Inl e \<Rightarrow> Inl e
             | Inr refs2 \<Rightarrow>
                (case merge_handles st root lnk srcobj tgt refs2 of
                   Inl e \<Rightarrow> Inl e
                 | Inr refs3 \<Rightarrow> Inr (tgt_model, refs3))))"

text \<open>
  \<open>_initialize_models\<close>: nothing on \<open>JSCallbackGenerator\<close>; on
  \<open>JSLinkCallbackGenerator\<close> the value of the source property is copied to the target
  property, and a missing target model without code is an error.
\<close>

definition jslink_initialize_models ::
  "state \<Rightarrow> callback \<Rightarrow> val \<Rightarrow> string option \<Rightarrow> val \<Rightarrow> string option \<Rightarrow> state \<times> (error + unit)" where
  "jslink_initialize_models st lnk src_model src_spec tgt_model tgt_spec =
     (case (case (src_spec, tgt_spec) of
              (Some s, Some t) \<Rightarrow>
                if truthy tgt_model \<and> s \<noteq> [] \<and> t \<noteq> [] then
                  (case py_getattr st src_model s of
                     Inl e \<Rightarrow> (st, Inl e)
                   | Inr v \<Rightarrow> py_setattr st tgt_model t v)
                else (st, Inr ())
            | _ \<Rightarrow> (st, Inr ())) of
        (st1, Inl e) \<Rightarrow> (st1, Inl e)
      | (st1, Inr u) \<Rightarrow>
          if tgt_model = VNone \<and> \<not> code_truthy (code lnk) then (st1, Inl ValueError)
          else (st1, Inr ()))"

definition initialize_models ::
  "gen \<Rightarrow> state \<Rightarrow> callback \<Rightarrow> val \<Rightarrow> string option \<Rightarrow> val \<Rightarrow> string option \<Rightarrow> state \<times> (error + unit)" where
  "initialize_models g st lnk src_model src_spec tgt_model tgt_spec =
     (case g of
        JSCallbackGenerator \<Rightarrow> (st, Inr ())
      | JSLinkCallbackGenerator \<Rightarrow> jslink_initialize_models st lnk src_model src_spec tgt_model tgt_spec)"

text \<open>
  \<open>JSLinkCallbackGenerator._process_references\<close>: the loop over the keys as they were
  when it started.  \<open>references.pop(k)\<close> is evaluated before the assignment.
\<close>

definition starts_with :: "string \<Rightarrow> string \<Rightarrow> bool" where
  "starts_with p s = (take (length p) s = p)"

fun strip_loop :: "string list \<Rightarrow> (string \<times> val) list \<Rightarrow> error + (string \<times> val) list" where
  "strip_loop [] refs = Inr refs"
| "strip_loop (k # ks) refs =
     (if k = ''target'' \<or> \<not> starts_with ''target_'' k \<or> drop 7 k \<in> set (map fst refs)
      then strip_loop ks refs
      else case map_of refs k of
             None \<Rightarrow> Inl KeyError
           | Some v \<Rightarrow> strip_loop ks (AList.update (drop 7 k) v (AList.delete k refs)))"

definition jslink_process_references :: "(string \<times> val) list \<Rightarrow> error + (string \<times> val) list" where
  "jslink_process_references refs = strip_loop (map fst refs) refs"

definition process_references :: "gen \<Rightarrow> (string \<times> val) list \<Rightarrow> error + (string \<times> val) list" where
  "process_references g refs =
     (case g of
        JSCallbackGenerator \<Rightarrow> Inr refs
      | JSLinkCallbackGenerator \<Rightarrow> jslink_process_references refs)"

text \<open>
  \<open>_get_code\<close>.  \<open>JSCallbackGenerator\<close> inherits the three-argument method of the base
  class, which the five-argument call does not fit.  Modelled from the spec:
  \<open>unicode_repr\<close> (module \<open>util\<close>) quotes the property name.
\<close>

definition unicode_repr :: "string option \<Rightarrow> string" where
  "unicode_repr s = (case s of None \<Rightarrow> ''None'' | Some x \<Rightarrow> [CHR 0x27] @ x @ [CHR 0x27])"

definition format_opt :: "string option \<Rightarrow> string" where
  "format_opt s = (case s of None \<Rightarrow> ''None'' | Some x \<Rightarrow> x)"

definition jslink_get_code :: "string option \<Rightarrow> string option \<Rightarrow> string" where
  "jslink_get_code src_spec tgt_spec =
     ''value = source['' @ unicode_repr src_spec @ ''];'' @
     ''try { property = target.properties['' @ unicode_repr tgt_spec @ ''];'' @
     ''if (property !== undefined) { property.validate(value); } }'' @
     ''catch(err) { console.log('' @ [CHR 0x27] @ ''WARNING: Could not set '' @ format_opt tgt_spec @
     '' on target, raised error: '' @ [CHR 0x27] @ '' + err); return; }'' @
     ''target['' @ unicode_repr tgt_spec @ ''] = value''"

definition get_code :: "gen \<Rightarrow> string option \<Rightarrow> string option \<Rightarrow> error + string" where
  "get_code g src_spec tgt_spec =
     (case g of
        JSCallbackGenerator \<Rightarrow> Inl TypeError
      | JSLinkCallbackGenerator \<Rightarrow> Inr (jslink_get_code src_spec tgt_spec))"

text \<open>
  \<open>Model.js_on_change\<close> of bokeh: the event of a property is named \<open>change:\<close> and the
  property; the callback, a new object, is appended to the list of the event.
\<close>

definition js_on_change :: "state \<Rightarrow> nat \<Rightarrow> string \<Rightarrow> customjs \<Rightarrow> state" where
  "js_on_change st m ev cb =
     (let event = (if attrs st m ev \<noteq> None then ''change:'' @ ev else ev);
          cbs = js_property_callbacks st m;
          cbs1 = (case map_of cbs event of
                    None \<Rightarrow> cbs @ [(event, [cb])]
                  | Some l \<Rightarrow> AList.update event (l @ [cb]) cbs)
      in st\<lparr>js_property_callbacks := (js_property_callbacks st)(m := cbs1)\<rparr>)"

text \<open>
  \<open>_get_triggers\<close> of \<open>JSCallbackGenerator\<close>, inherited by the link generator: the one
  change \<open>src_spec[1]\<close> and no event.
\<close>

definition get_triggers :: "gen \<Rightarrow> spec \<Rightarrow> string option list \<times> string list" where
  "get_triggers g src_spec = ([snd src_spec], [])"

fun attach_changes :: "state \<Rightarrow> nat \<Rightarrow> string option list \<Rightarrow> customjs \<Rightarrow> state \<times> (error + unit)" where
  "attach_changes st m [] cb = (st, Inr ())"
| "attach_changes st m (ch # chs) cb =
     (case ch of
        None \<Rightarrow> (st, Inl TypeError)
      | Some c \<Rightarrow> attach_changes (js_on_change st m c cb) m chs cb)"

definition init_callback ::
  "gen \<Rightarrow> state \<Rightarrow> nat \<Rightarrow> callback \<Rightarrow> val \<Rightarrow> spec \<Rightarrow> val \<Rightarrow> spec \<Rightarrow> string option \<Rightarrow>
   (string \<times> val) list \<Rightarrow> state \<times> (error + unit)" where
  "init_callback g st root lnk srcobj src_spec tgt tgt_spec cde arg_overrides =
     (case resolve_model st root srcobj (fst src_spec) of
        Inl e \<Rightarrow> (st, Inl e)
      | Inr src_model \<Rightarrow>
         (case src_model of
            VRef (Model m) \<Rightarrow>
              if tagged st m (cid lnk) then (st, Inr ())
              else
                (case build_references st root lnk srcobj src_model tgt tgt_spec arg_overrides of
                   Inl e \<Rightarrow> (st, Inl e)
                 | Inr (tgt_model, references) \<Rightarrow>
                    (case initialize_models g st lnk src_model (snd src_spec) tgt_model (snd tgt_spec) of
                       (st1, Inl e) \<Rightarrow> (st1, Inl e)
                     | (st1, Inr u) \<Rightarrow>
                        (case process_references g references of
                           Inl e \<Rightarrow> (st1, Inl e)
                         | Inr refs \<Rightarrow>
                            (case (case cde of
                                     None \<Rightarrow> get_code g (snd src_spec) (snd tgt_spec)
                                   | Some c \<Rightarrow> Inr c) of
                               Inl e \<Rightarrow> (st1, Inl e)
                             | Inr c \<Rightarrow>
                                 attach_changes st1 m (fst (get_triggers g src_spec))
                                   \<lparr>cj_args = refs, cj_code = c, cj_tags = [cid lnk]\<rparr>))))
          | _ \<Rightarrow> (st, Inl AttributeError)))"

section \<open>\<open>CallbackGenerator.__init__\<close>\<close>

fun init_callbacks ::
  "gen \<Rightarrow> state \<Rightarrow> nat \<Rightarrow> callback \<Rightarrow> val \<Rightarrow> val \<Rightarrow> (string \<times> val) list \<Rightarrow>
   (spec \<times> spec \<times> string option) list \<Rightarrow> state \<times> (error + unit)" where
  "init_callbacks g st root lnk srcobj tgt ov [] = (st, Inr ())"
| "init_callbacks g st root lnk srcobj tgt ov ((src_spec, tgt_spec, cde) # specs) =
     (case init_callback g st root lnk srcobj src_spec tgt tgt_spec cde ov of
        (st1, Inl e) \<Rightarrow> (st1, Inl e)
      | (st1, Inr u) \<Rightarrow> init_callbacks g st1 root lnk srcobj tgt ov specs)"

definition generator ::
  "gen \<Rightarrow> state \<Rightarrow> nat \<Rightarrow> callback \<Rightarrow> val \<Rightarrow> val \<Rightarrow> (string \<times> val) list \<Rightarrow> state \<times> (error + unit)" where
  "generator g st root lnk srcobj tgt ov =
     (case get_specs g st lnk srcobj tgt of
        Inl e \<Rightarrow> (st, Inl e)
      | Inr specs \<Rightarrow> init_callbacks g st root lnk srcobj tgt ov specs)"

section \<open>\<open>Callback._process_callbacks\<close>\<close>

text \<open>\<open>cls.registry.get(src, [])\<close>\<close>

definition registry_get :: "state \<Rightarrow> ref \<Rightarrow> callback list" where
  "registry_get st src = (case registry st src of None \<Rightarrow> [] | Some links \<Rightarrow> links)"

text \<open>\<open>getattr(link, 'target', None)\<close> and \<open>link.target in linkable\<close>\<close>

definition getattr_target :: "callback \<Rightarrow> ref option" where
  "getattr_target lnk = (if ctype lnk = LinkC then target lnk else None)"

definition target_in :: "callback \<Rightarrow> ref list \<Rightarrow> bool" where
  "target_in lnk linkable = (case target lnk of None \<Rightarrow> False | Some t \<Rightarrow> t \<in> set linkable)"

text \<open>The comprehension that computes \<open>found\<close>.\<close>

definition found_registry :: "state \<Rightarrow> ref list \<Rightarrow> (callback \<times> ref \<times> ref option) list" where
  "found_registry st linkable =
     concat (map (\<lambda>src.
       map (\<lambda>lnk. (lnk, src, getattr_target lnk))
         (filter (\<lambda>lnk. \<not> requires_target (ctype lnk) \<or> target_in lnk linkable) (registry_get st src)))
       linkable)"

text \<open>What the HoloViews step appends to \<open>found\<close>, in the order of its loops.\<close>

definition found_holoviews :: "state \<Rightarrow> ref list \<Rightarrow> (callback \<times> ref \<times> ref option) list" where
  "found_holoviews st linkable =
     concat (map (\<lambda>src.
       concat (map (\<lambda>lnk.
         if ctype lnk = LinkC
         then map (\<lambda>tg. (lnk, src, Some tg)) (panel_bokeh_map st (oval (target lnk)))
         else []) (registry_get st src)))
       linkable)"

text \<open>
  \<open>map_hve_bk.get(v, [])\<close> hashes its key: a dict is unhashable and raises
  \<open>TypeError\<close>; the other values are hashable.
\<close>

definition hashable :: "val \<Rightarrow> bool" where
  "hashable v = (case v of VDict d \<Rightarrow> False | _ \<Rightarrow> True)"

text \<open>
  \<open>arg_overrides[id(link)]\<close> as the HoloViews step fills it: for each argument the last
  plot its value maps to.  The lookup of an unhashable argument value raises.
\<close>

fun overrides_loop ::
  "state \<Rightarrow> (string \<times> val) list \<Rightarrow> (string \<times> val) list \<Rightarrow> error + (string \<times> val) list" where
  "overrides_loop st [] d = Inr d"
| "overrides_loop st ((k, v) # kvs) d =
     (if \<not> hashable v then Inl TypeError
      else overrides_loop st kvs
             (case panel_bokeh_map st v of
                [] \<Rightarrow> d
              | t # ts \<Rightarrow> AList.update k (VRef (last (t # ts))) d))"

definition link_overrides :: "state \<Rightarrow> callback \<Rightarrow> error + (string \<times> val) list" where
  "link_overrides st lnk = overrides_loop st (args lnk) []"

text \<open>
  The loops of the HoloViews step over the links registered under the linkable objects, as
  far as \<open>arg_overrides\<close> goes; an error leaves the pass before anything is emitted.
\<close>

fun overrides_table_loop ::
  "state \<Rightarrow> callback list \<Rightarrow> (nat \<times> (string \<times> val) list) list \<Rightarrow>
   error + (nat \<times> (string \<times> val) list) list" where
  "overrides_table_loop st [] tbl = Inr tbl"
| "overrides_table_loop st (lnk # lnks) tbl =
     (case link_overrides st lnk of
        Inl e \<Rightarrow> Inl e
      | Inr d \<Rightarrow> overrides_table_loop st lnks (AList.update (cid lnk) d tbl))"

definition overrides_table :: "state \<Rightarrow> ref list \<Rightarrow> error + (nat \<times> (string \<times> val) list) list" where
  "overrides_table st linkable =
     overrides_table_loop st (concat (map (registry_get st) linkable)) []"

text \<open>\<open>arg_overrides\<close> when the HoloViews step is over: empty without HoloViews.\<close>

definition arg_overrides_of ::
  "state \<Rightarrow> ref list \<Rightarrow> error + (nat \<times> (string \<times> val) list) list" where
  "arg_overrides_of st linkable =
     (if holoviews_loaded st then overrides_table st linkable else Inr [])"

text \<open>
  The loop over \<open>found\<close>.  A generator that was built is recorded by its class, link,
  source and target.  The sources come from \<open>linkable\<close> and are objects, so
  \<open>src is None\<close> does not arise.
\<close>

type_synonym generator_obj = "gen \<times> callback \<times> ref \<times> ref option"

fun emit_loop ::
  "state \<Rightarrow> nat \<Rightarrow> (nat \<times> (string \<times> val) list) list \<Rightarrow> (callback \<times> ref \<times> ref option) list \<Rightarrow>
   generator_obj list \<Rightarrow> state \<times> (error + generator_obj list)" where
  "emit_loop st root tbl [] callbacks = (st, Inr callbacks)"
| "emit_loop st root tbl ((lnk, src, tg) # found) callbacks =
     (if requires_target (ctype lnk) \<and> tg = None then emit_loop st root tbl found callbacks
      else
        (case generator (callbacks_table (ctype lnk)) st root lnk (VRef src) (oval tg)
                (case map_of tbl (cid lnk) of None \<Rightarrow> [] | Some d \<Rightarrow> d) of
           (st1, Inl e) \<Rightarrow> (st1, Inl e)
         | (st1, Inr u) \<Rightarrow>
             emit_loop st1 root tbl found (callbacks @ [(callbacks_table (ctype lnk), lnk, src, tg)])))"

definition linkable_of :: "state \<Rightarrow> nat \<Rightarrow> nat \<Rightarrow> ref list" where
  "linkable_of st root_view root = select_viewable st root_view @ select_models st root"

definition found_of :: "state \<Rightarrow> ref list \<Rightarrow> (callback \<times> ref \<times> ref option) list" where
  "found_of st linkable =
     found_registry st linkable @ (if holoviews_loaded st then found_holoviews st linkable else [])"

definition process_callbacks ::
  "state \<Rightarrow> nat \<Rightarrow> nat option \<Rightarrow> state \<times> (error + generator_obj list option)" where
  "process_callbacks st root_view root_model =
     (case root_model of
        None \<Rightarrow> (st, Inr None)
      | Some root \<Rightarrow>
         (let linkable = linkable_of st root_view root in
          if linkable = [] then (st, Inr None)
          else
            (case arg_overrides_of st linkable of
               Inl e \<Rightarrow> (st, Inl e)
             | Inr tbl \<Rightarrow>
                (case emit_loop st root tbl (found_of st linkable) [] of
                   (st1, Inl e) \<Rightarrow> (st1, Inl e)
                 | (st1, Inr callbacks) \<Rightarrow> (st1, Inr (Some callbacks))))))"

section \<open>Example worlds\<close>

text \<open>
  A root view \<open>View 0\<close> with two reactive children \<open>View 1\<close> and \<open>View 2\<close>, rendered under
  the root model \<open>Model 100\<close> as \<open>Model 101\<close> (property \<open>value\<close>) and \<open>Model 102\<close>
  (properties \<open>text\<close> and \<open>title\<close>, the latter unset); HoloViews is not loaded.
\<close>

definition ex_world :: "registry \<Rightarrow> state" where
  "ex_world reg =
     \<lparr>registry = reg,
      holoviews_loaded = False,
      select_viewable = (\<lambda>v. if v = 0 then [View 0, View 1, View 2] else []),
      select_models = (\<lambda>m. if m = 100 then [Model 100, Model 101, Model 102] else []),
      panel_bokeh_map = (\<lambda>k. []),
      view_models = (\<lambda>v r. if r = 100 \<and> v \<le> 2 then Some (VRef (Model (100 + v))) else None),
      view_plots = (\<lambda>v r. None),
      view_reactive = (\<lambda>v. v = 1 \<or> v = 2),
      view_holoviews = (\<lambda>v. False),
      view_rename = (\<lambda>v p. None),
      plot_state = (\<lambda>p. VNone),
      plot_handles = (\<lambda>p. []),
      attrs = (\<lambda>m. if m = 101 then [''value'' \<mapsto> VInt 3]
                    else if m = 102 then [''text'' \<mapsto> VStr ''abc'', ''title'' \<mapsto> VNone]
                    else Map.empty),
      js_property_callbacks = (\<lambda>m. [])\<rparr>"

text \<open>\<open>Link(source=View 1, target=View 2, properties={'value': 'text'})\<close>\<close>

definition ex_link :: callback where
  "ex_link = new_instance LinkC 21 (Some (View 1)) (Some (View 2)) ''Link00021''
               [] None [(''value'', ''text'')]"

text \<open>
  \<open>Link(source=View 1, target=View 2, properties={'value': 'title.text'})\<close>: the target
  path goes through \<open>title\<close>, which is \<open>None\<close> on the target model.
\<close>

definition ex_link_unresolved :: callback where
  "ex_link_unresolved = new_instance LinkC 23 (Some (View 1)) (Some (View 2)) ''Link00023''
               [] None [(''value'', ''title.text'')]"

text \<open>\<open>Callback(source=View 2, code={'title': 'a();', 'text': 'b();'})\<close>\<close>

definition ex_callback :: callback where
  "ex_callback = new_instance CallbackC 22 (Some (View 2)) None ''Callback00022''
               [] (Some [(''title'', ''a();''), (''text'', ''b();'')]) []"

text \<open>The linkable objects of the example world, and a world with two registered sources.\<close>

definition ex_linkable :: "ref list" where
  "ex_linkable = [View 0, View 1, View 2, Model 100, Model 101, Model 102]"

definition ex_world_abort :: state where
  "ex_world_abort = ex_world (Map.empty(View 1 \<mapsto> [ex_link_unresolved], View 2 \<mapsto> [ex_callback]))"

text \<open>
  The example world with HoloViews loaded: \<open>View 2\<close> is a HoloViews pane whose plot is
  \<open>Plot 7\<close>, with the state \<open>Model 120\<close> and the one handle \<open>plot\<close>.
\<close>

definition ex_world_hv :: "registry \<Rightarrow> state" where
  "ex_world_hv reg =
     (ex_world reg)
       \<lparr>holoviews_loaded := True,
        panel_bokeh_map := (\<lambda>k. if k = VRef (View 2) then [Plot 7] else []),
        view_plots := (\<lambda>v r. if v = 2 \<and> r = 100 then Some (VRef (Plot 7)) else None),
        view_holoviews := (\<lambda>v. v = 2),
        plot_state := (\<lambda>p. if p = 7 then VRef (Model 120) else VNone),
        plot_handles := (\<lambda>p. if p = 7 then [(''plot'', VRef (Model 120))] else [])\<rparr>"

text \<open>
  \<open>Link(source=View 1, target=View 2, args={'p': View 2}, properties={'value': 'text'})\<close>,
  and a link of \<open>View 1\<close> to \<open>View 9\<close>, which is not under the root.
\<close>

definition ex_link_hv :: callback where
  "ex_link_hv = new_instance LinkC 28 (Some (View 1)) (Some (View 2)) ''Link00028''
               [(''p'', VRef (View 2))] None [(''value'', ''text'')]"

definition ex_link_far :: callback where
  "ex_link_far = new_instance LinkC 27 (Some (View 1)) (Some (View 9)) ''Link00027''
               [] None [(''value'', ''text'')]"

definition ex_registry_hv :: registry where
  "ex_registry_hv = Map.empty(View 1 \<mapsto> [ex_link_hv, ex_link_far])"




section \<open>Material for the deduplication guard\<close>







section \<open>Registration: properties\<close>

lemmas ex_defs = ex_cb1_def ex_lk1_def ex_lk2_def ex_lk3_def new_instance_def

subsection \<open>Dictionary equality is an equivalence\<close>

lemma dict_eq_iff:
  "dict_eq veq a b \<longleftrightarrow>
     fst ` set a = fst ` set b \<and>
     (\<forall>k\<in>fst ` set a. \<exists>x y. map_of a k = Some x \<and> map_of b k = Some y \<and> veq x y)"
proof -
  have "\<And>k. (case (map_of a k, map_of b k) of (Some x, Some y) \<Rightarrow> veq x y | _ \<Rightarrow> False)
          \<longleftrightarrow> (\<exists>x y. map_of a k = Some x \<and> map_of b k = Some y \<and> veq x y)"
    by (auto split: option.splits)
  then show ?thesis
    unfolding dict_eq_def list_all_iff by simp
qed

lemma dict_eq_refl:
  assumes "\<And>x. veq x x"
  shows "dict_eq veq a a"
proof -
  have "\<exists>x y. map_of a k = Some x \<and> map_of a k = Some y \<and> veq x y" if "k \<in> fst ` set a" for k
  proof -
    from that have "map_of a k \<noteq> None" by (simp add: map_of_eq_None_iff)
    then obtain x where "map_of a k = Some x" by blast
    with assms show ?thesis by simp
  qed
  then show ?thesis unfolding dict_eq_iff by blast
qed

lemma dict_eq_sym:
  assumes sy: "\<And>x y. veq x y \<Longrightarrow> veq y x" and ab: "dict_eq veq a b"
  shows "dict_eq veq b a"
proof -
  have keys: "fst ` set b = fst ` set a" using ab unfolding dict_eq_iff by simp
  have "\<exists>x y. map_of b k = Some x \<and> map_of a k = Some y \<and> veq x y" if "k \<in> fst ` set b" for k
  proof -
    from that keys have "k \<in> fst ` set a" by simp
    with ab obtain x y where "map_of a k = Some x" "map_of b k = Some y" "veq x y"
      unfolding dict_eq_iff by blast
    with sy show ?thesis by blast
  qed
  with keys show ?thesis unfolding dict_eq_iff by blast
qed

lemma dict_eq_trans:
  assumes tr: "\<And>x y z. veq x y \<Longrightarrow> veq y z \<Longrightarrow> veq x z"
    and ab: "dict_eq veq a b" and bc: "dict_eq veq b c"
  shows "dict_eq veq a c"
proof -
  have keys: "fst ` set a = fst ` set c" using ab bc unfolding dict_eq_iff by simp
  have "\<exists>x z. map_of a k = Some x \<and> map_of c k = Some z \<and> veq x z" if k: "k \<in> fst ` set a" for k
  proof -
    from ab k obtain x y where 1: "map_of a k = Some x" "map_of b k = Some y" "veq x y"
      unfolding dict_eq_iff by blast
    from ab k have "k \<in> fst ` set b" unfolding dict_eq_iff by simp
    with bc obtain y' z where 2: "map_of b k = Some y'" "map_of c k = Some z" "veq y' z"
      unfolding dict_eq_iff by blast
    from 1(2) 2(1) have "y' = y" by simp
    with 1 2 tr[of x y z] show ?thesis by simp
  qed
  with keys show ?thesis unfolding dict_eq_iff by blast
qed

lemma dict_eq_eq_refl: "dict_eq (=) a a"
  by (rule dict_eq_refl) simp

lemma dict_eq_eq_sym: "dict_eq (=) a b \<Longrightarrow> dict_eq (=) b a"
  by (rule dict_eq_sym[where veq="(=)"]) simp_all

lemma dict_eq_eq_trans: "dict_eq (=) a b \<Longrightarrow> dict_eq (=) b c \<Longrightarrow> dict_eq (=) a c"
  by (rule dict_eq_trans[where veq="(=)" and b=b]) simp_all

lemma pval_eq_PCode:
  "pval_eq (PCode a) (PCode b) =
     (case (a, b) of (None, None) \<Rightarrow> True | (Some x, Some y) \<Rightarrow> dict_eq (=) x y | _ \<Rightarrow> False)"
  by (cases a; cases b) simp_all

lemma pval_eq_refl: "pval_eq x x"
proof (cases x)
  case (PCode c)
  then show ?thesis by (cases c) (simp_all add: dict_eq_eq_refl)
qed (simp_all add: dict_eq_eq_refl)

lemma pval_eq_sym: "pval_eq x y \<Longrightarrow> pval_eq y x"
proof (induction x y rule: pval_eq.induct)
  case (1 a b)
  then show ?case by simp
next
  case (2 a b)
  then show ?case by (simp add: dict_eq_eq_sym)
next
  case 3
  then show ?case by simp
next
  case (4 a b)
  then show ?case by (simp add: dict_eq_eq_sym)
next
  case (5 a b)
  then show ?case by (simp add: dict_eq_eq_sym)
qed simp_all

lemma pval_eq_trans: "pval_eq x y \<Longrightarrow> pval_eq y z \<Longrightarrow> pval_eq x z"
proof (induction x y rule: pval_eq.induct)
  case (1 a b)
  then show ?case by simp
next
  case (2 a b)
  then show ?case by (cases z) (simp_all, metis dict_eq_eq_trans)
next
  case 3
  then show ?case by simp
next
  case (4 a b)
  from 4(2) obtain c where z: "z = PCode (Some c)"
    by (cases z) (simp_all add: pval_eq_PCode split: option.splits)
  with 4 show ?case using dict_eq_eq_trans[of a b c] by simp
next
  case (5 a b)
  then show ?case by (cases z) (simp_all, metis dict_eq_eq_trans)
qed simp_all

lemma equivalent_refl: "equivalent a a"
  by (simp add: equivalent_def dict_eq_refl pval_eq_refl)

lemma equivalent_sym: "equivalent a b \<Longrightarrow> equivalent b a"
  unfolding equivalent_def
  by (simp add: dict_eq_sym[of pval_eq, OF pval_eq_sym])

lemma equivalent_trans:
  assumes "equivalent a b" "equivalent b c"
  shows "equivalent a c"
proof -
  have "dict_eq pval_eq (params_no_name a) (params_no_name c)"
    by (rule dict_eq_trans[of pval_eq _ "params_no_name b"])
       (use assms pval_eq_trans in \<open>auto simp: equivalent_def\<close>)
  with assms show ?thesis by (simp add: equivalent_def)
qed

subsection \<open>Links register idempotently\<close>

text \<open>On a \<open>Link\<close> the scan raises nothing and finds exactly the equivalent entries.\<close>

lemma scan_link_iff:
  "ctype self = LinkC \<Longrightarrow> scan self links = Inr (\<exists>l\<in>set links. equivalent self l)"
  by (induction links) (auto simp: target_attr_def equivalent_def)

lemma init_link:
  assumes "ctype self = LinkC" "source self = Some s"
  shows "init reg self =
     (case reg s of
        None \<Rightarrow> (reg(s \<mapsto> [self]), Inr ())
      | Some links \<Rightarrow>
          if \<exists>l\<in>set links. equivalent self l then (reg, Inr ())
          else (reg(s \<mapsto> links @ [self]), Inr ()))"
  using assms by (simp add: init_def scan_link_iff split: option.splits)

text \<open>
  After a \<open>Link\<close> has been registered, the list of its source holds an entry
  equivalent to it.
\<close>

lemma init_link_registered:
  assumes "ctype c1 = LinkC" "source c1 = Some s" "init reg c1 = (reg1, r)"
  shows "r = Inr () \<and> (\<exists>links. reg1 s = Some links \<and> (\<exists>l\<in>set links. equivalent c1 l))"
  using assms equivalent_refl[of c1]
  by (auto simp: init_link split: option.splits if_splits)

text \<open>
  Registering an equivalent second \<open>Link\<close> changes nothing; \<open>link()\<close> on a
  registered \<open>Link\<close> changes nothing either.
\<close>

lemma init_link_equivalent_noop:
  assumes c1: "ctype c1 = LinkC" "source c1 = Some s" "init reg c1 = (reg1, r)"
    and c2: "equivalent c2 c1"
  shows "init reg1 c2 = (reg1, Inr ())"
proof -
  from init_link_registered[OF c1] obtain links l where
    l: "reg1 s = Some links" "l \<in> set links" "equivalent c1 l" by blast
  from c2 l(3) have "equivalent c2 l" by (rule equivalent_trans)
  moreover from c2 c1 have "ctype c2 = LinkC" "source c2 = Some s" by (simp_all add: equivalent_def)
  ultimately show ?thesis using l by (auto simp: init_link)
qed

lemma link_after_init_noop:
  assumes "ctype c1 = LinkC" "source c1 = Some s" "init reg c1 = (reg1, r)"
  shows "link reg1 c1 = (reg1, Inr ())"
  using init_link_equivalent_noop[OF assms equivalent_refl] assms(1) by (simp add: link_def)

text \<open>A \<open>Link\<close> with no equivalent entry is appended at the end of the list.\<close>

lemma init_link_appends:
  assumes "ctype c2 = LinkC" "source c2 = Some s" "reg s = Some links"
    "\<forall>l\<in>set links. \<not> equivalent c2 l"
  shows "init reg c2 = (reg(s \<mapsto> links @ [c2]), Inr ())"
  using assms by (simp add: init_link)

text \<open>
  The identities in a list stay distinct, provided an identity stands for one instance.
\<close>

lemma init_link_distinct:
  assumes "ctype self = LinkC" "source self = Some s" "reg s = Some links"
    "distinct (map cid links)" "\<forall>x\<in>set links. cid x = cid self \<longrightarrow> x = self"
    "init reg self = (reg1, r)" "reg1 s = Some links1"
  shows "distinct (map cid links1)"
proof (cases "\<exists>l\<in>set links. equivalent self l")
  case True
  with assms show ?thesis by (auto simp: init_link)
next
  case False
  then have "self \<notin> set links" using equivalent_refl by blast
  with assms(5) have "cid self \<notin> cid ` set links" by auto
  with False assms show ?thesis by (auto simp: init_link)
qed

subsection \<open>A base \<open>Callback\<close> meets a registered one\<close>

lemma scan_base_raises:
  "ctype self = CallbackC \<Longrightarrow> c1 \<in> set links \<Longrightarrow> ctype c1 = CallbackC \<Longrightarrow>
   source c1 = source self \<Longrightarrow> scan self links = Inl AttributeError"
  by (induction links) (auto simp: target_attr_def)

text \<open>
  Claim C9.  Once a base \<open>Callback\<close> \<open>c1\<close> with source \<open>s\<close> is in the registry list
  of \<open>s\<close>, constructing any further base \<open>Callback\<close> with the source \<open>s\<close> raises
  \<open>AttributeError\<close>, whatever its target argument and parameters are, and the registry
  stays as it was: the new instance is neither recognised as a duplicate nor appended.
\<close>

theorem base_callback_second_raises:
  assumes "reg s = Some links" "c1 \<in> set links" "ctype c1 = CallbackC" "source c1 = Some s"
  shows "construct reg CallbackC i (Some s) tgt nm a c p = (reg, Inl AttributeError)"
proof -
  let ?c2 = "new_instance CallbackC i (Some s) tgt nm a c p"
  have "scan ?c2 links = Inl AttributeError"
    using assms by (intro scan_base_raises[of _ c1]) (simp_all add: new_instance_def)
  then show ?thesis using assms(1)
    by (simp add: construct_def init_def new_instance_def)
qed

theorem base_callback_second_raises_witness:
  "fst (construct Map.empty CallbackC 1 (Some (View 0)) None ''Callback00001''
          [(''a'', VInt 1)] (Some [(''value'', ''console.log(1)'')]) []) = Map.empty(View 0 \<mapsto> [ex_cb1]) \<and>
   ex_cb1 \<in> set [ex_cb1] \<and> ctype ex_cb1 = CallbackC \<and> source ex_cb1 = Some (View 0) \<and>
   construct (Map.empty(View 0 \<mapsto> [ex_cb1])) CallbackC 2 (Some (View 0)) (Some (View 1))
     ''Callback00002'' [(''a'', VInt 1)] (Some [(''value'', ''console.log(1)'')]) []
   = (Map.empty(View 0 \<mapsto> [ex_cb1]), Inl AttributeError)"
proof -
  have h: "(Map.empty(View 0 \<mapsto> [ex_cb1])) (View 0) = Some [ex_cb1]" "ex_cb1 \<in> set [ex_cb1]"
    "ctype ex_cb1 = CallbackC" "source ex_cb1 = Some (View 0)"
    by (simp_all add: ex_defs)
  have r: "fst (construct Map.empty CallbackC 1 (Some (View 0)) None ''Callback00001''
          [(''a'', VInt 1)] (Some [(''value'', ''console.log(1)'')]) []) = Map.empty(View 0 \<mapsto> [ex_cb1])"
    by (simp add: construct_def init_def ex_defs)
  from base_callback_second_raises[of "Map.empty(View 0 \<mapsto> [ex_cb1])" "View 0" "[ex_cb1]" ex_cb1] h r
  show ?thesis by simp
qed

text \<open>
  Claim C1, at a base \<open>Callback\<close>.  With one base \<open>Callback\<close> registered for a
  source, a second base \<open>Callback\<close> for that source whose \<open>args\<close> differ is not
  equivalent to the first, yet it is not appended: its construction raises
  \<open>AttributeError\<close> and the list still holds the first instance only.
\<close>

theorem callback_nonequivalent_not_appended:
  "\<not> equivalent (new_instance CallbackC 2 (Some (View 0)) None ''Callback00002''
                    [(''b'', VInt 2)] (Some [(''value'', ''console.log(1)'')]) []) ex_cb1 \<and>
   construct (Map.empty(View 0 \<mapsto> [ex_cb1])) CallbackC 2 (Some (View 0)) None ''Callback00002''
     [(''b'', VInt 2)] (Some [(''value'', ''console.log(1)'')]) []
   = (Map.empty(View 0 \<mapsto> [ex_cb1]), Inl AttributeError)"
  by (simp add: construct_def init_def target_attr_def equivalent_def dict_eq_def
      params_no_name_def get_param_values_def ex_defs)

subsection \<open>Construction checks come first\<close>

text \<open>
  Claim C4.  Constructing an instance of either class with no source fails with
  \<open>ValueError\<close> (the construction error of the specification), and so does constructing
  an instance of a class that requires a target with no target; in both cases the registry
  is returned as it was, since the check precedes \<open>init\<close>.
\<close>

theorem construct_rejects_absent:
  "construct reg k i None tgt nm a c p = (reg, Inl ValueError) \<and>
   (requires_target k \<longrightarrow> construct reg k i src None nm a c p = (reg, Inl ValueError))"
  by (cases k) (simp_all add: construct_def requires_target_def)

theorem construct_rejects_absent_witness:
  "construct (Map.empty(View 0 \<mapsto> [ex_lk1])) LinkC 12 None (Some (View 2)) ''Link00012'' [] None
     [(''value'', ''text'')] = (Map.empty(View 0 \<mapsto> [ex_lk1]), Inl ValueError) \<and>
   requires_target LinkC \<and>
   construct (Map.empty(View 0 \<mapsto> [ex_lk1])) LinkC 12 (Some (View 0)) None ''Link00012'' [] None
     [(''value'', ''text'')] = (Map.empty(View 0 \<mapsto> [ex_lk1]), Inl ValueError)"
  using construct_rejects_absent[of "Map.empty(View 0 \<mapsto> [ex_lk1])" LinkC 12 "Some (View 2)"
      "''Link00012''" "[]" None "[(''value'', ''text'')]" "Some (View 0)"]
  by (simp add: requires_target_def)

subsection \<open>\<open>unlink\<close>\<close>

lemma pop_first_filter:
  "filter (\<lambda>x. cid x \<noteq> cid l) (pop_first l xs) = filter (\<lambda>x. cid x \<noteq> cid l) xs"
  by (induction xs) auto

lemma pop_first_distinct:
  "distinct (map cid xs) \<Longrightarrow> pop_first l xs = filter (\<lambda>x. cid x \<noteq> cid l) xs"
proof (induction xs)
  case Nil
  then show ?case by simp
next
  case (Cons x xs)
  show ?case
  proof (cases "cid x = cid l")
    case True
    with Cons.prems have "\<forall>y\<in>set xs. cid y \<noteq> cid l" by (auto simp: image_iff)
    then have "filter (\<lambda>x. cid x \<noteq> cid l) xs = xs" by (simp add: filter_id_conv)
    with True show ?thesis by simp
  next
    case False
    with Cons show ?thesis by simp
  qed
qed

lemma pop_first_absent: "\<not> contains_obj l xs \<Longrightarrow> pop_first l xs = xs"
  by (induction xs) (auto simp: contains_obj_def)

lemma pop_first_length: "contains_obj l xs \<Longrightarrow> Suc (length (pop_first l xs)) = length xs"
  by (induction xs) (auto simp: contains_obj_def)

lemma filter_absent: "\<not> contains_obj l xs \<Longrightarrow> filter (\<lambda>x. cid x \<noteq> cid l) xs = xs"
  by (induction xs) (auto simp: contains_obj_def)

text \<open>With no registry list for the source, \<open>unlink\<close> is not silent.\<close>

lemma unlink_without_list_raises:
  "ctype l = LinkC \<Longrightarrow> source l = Some s \<Longrightarrow> reg s = None \<Longrightarrow> unlink reg l = (reg, Inl TypeError)"
  by (simp add: unlink_def)

text \<open>
  Claim C6.  For a \<open>Link\<close> \<open>l\<close> with source \<open>s\<close> and a registry list \<open>links\<close> for
  \<open>s\<close> (identities in it distinct), \<open>unlink\<close> succeeds and leaves for \<open>s\<close> the list
  without the instance \<open>l\<close>: the other entries all stay, in their order.  The lists of the
  other sources are untouched; the list gets shorter by one when \<open>l\<close> was in it, and when
  \<open>l\<close> was not in it the registry is unchanged and nothing is raised.
\<close>

theorem unlink_removes_exactly:
  assumes "ctype l = LinkC" "source l = Some s" "reg s = Some links" "distinct (map cid links)"
  shows "unlink reg l = (reg(s \<mapsto> filter (\<lambda>x. cid x \<noteq> cid l) links), Inr ()) \<and>
         (\<forall>s'. s' \<noteq> s \<longrightarrow> fst (unlink reg l) s' = reg s') \<and>
         (contains_obj l links \<longrightarrow> Suc (length (filter (\<lambda>x. cid x \<noteq> cid l) links)) = length links) \<and>
         (\<not> contains_obj l links \<longrightarrow> unlink reg l = (reg, Inr ()))"
proof -
  have fu: "reg(s \<mapsto> links) = reg" using assms(3) by (rule fun_upd_idem)
  have 1: "unlink reg l = (reg(s \<mapsto> filter (\<lambda>x. cid x \<noteq> cid l) links), Inr ())"
  proof (cases "contains_obj l links")
    case True
    then show ?thesis using assms by (simp add: unlink_def pop_first_distinct)
  next
    case False
    then show ?thesis using assms fu by (simp add: unlink_def filter_absent)
  qed
  have 2: "\<forall>s'. s' \<noteq> s \<longrightarrow> fst (unlink reg l) s' = reg s'" by (simp add: 1)
  have 3: "contains_obj l links \<longrightarrow> Suc (length (filter (\<lambda>x. cid x \<noteq> cid l) links)) = length links"
    using pop_first_length[of l links] pop_first_distinct[OF assms(4), of l] by simp
  have 4: "\<not> contains_obj l links \<longrightarrow> unlink reg l = (reg, Inr ())"
    using assms by (simp add: unlink_def)
  from 1 2 3 4 show ?thesis by blast
qed

theorem unlink_removes_exactly_witness:
  "ctype ex_lk2 = LinkC \<and> source ex_lk2 = Some (View 0) \<and>
   (Map.empty(View 0 \<mapsto> [ex_lk1, ex_lk2, ex_lk3])) (View 0) = Some [ex_lk1, ex_lk2, ex_lk3] \<and>
   distinct (map cid [ex_lk1, ex_lk2, ex_lk3]) \<and>
   unlink (Map.empty(View 0 \<mapsto> [ex_lk1, ex_lk2, ex_lk3])) ex_lk2
     = (Map.empty(View 0 \<mapsto> [ex_lk1, ex_lk3]), Inr ()) \<and>
   contains_obj ex_lk2 [ex_lk1, ex_lk2, ex_lk3]"
proof -
  have h: "ctype ex_lk2 = LinkC" "source ex_lk2 = Some (View 0)"
    "(Map.empty(View 0 \<mapsto> [ex_lk1, ex_lk2, ex_lk3])) (View 0) = Some [ex_lk1, ex_lk2, ex_lk3]"
    "distinct (map cid [ex_lk1, ex_lk2, ex_lk3])"
    by (simp_all add: ex_defs)
  from unlink_removes_exactly[of ex_lk2 "View 0" "Map.empty(View 0 \<mapsto> [ex_lk1, ex_lk2, ex_lk3])"
      "[ex_lk1, ex_lk2, ex_lk3]"] h
  show ?thesis by (simp add: contains_obj_def ex_defs)
qed

section \<open>Attached callbacks stay\<close>












section \<open>What a pass leaves alone\<close>












section \<open>What depends on the frame only\<close>












section \<open>The guard and the tag of an emission\<close>




section \<open>The specs of a code mapping\<close>

lemma js_specs_loop_last:
  "js_specs_loop st srcobj items bound =
     (if items = [] then bound
      else Some (path_spec st srcobj (fst (last items)), snd (last items)))"
  by (induction items arbitrary: bound) (auto split: prod.splits)

text \<open>
  Claim C10.  When the code mapping of a callback has at least one entry,
  \<open>JSCallbackGenerator._get_specs\<close> returns exactly one triple, built from the last entry
  of the mapping: its source spec, the target spec \<open>(None, None)\<close> and its code.  The link
  generator returns the same triple when the code mapping is non-empty, and the generator
  then makes the one call of \<open>_init_callback\<close> for it: no other entry of the mapping
  yields a spec or a callback.
\<close>

theorem js_get_specs_last_entry:
  assumes "code lnk = Some items" "items \<noteq> []"
  shows "js_get_specs st lnk srcobj tgt =
           Inr [(path_spec st srcobj (fst (last items)), (None, None), Some (snd (last items)))] \<and>
         jslink_get_specs st lnk srcobj tgt = js_get_specs st lnk srcobj tgt \<and>
         generator g st root lnk srcobj tgt ov =
           (case init_callback g st root lnk srcobj (path_spec st srcobj (fst (last items))) tgt
                   (None, None) (Some (snd (last items))) ov of
              (st1, Inl e) \<Rightarrow> (st1, Inl e)
            | (st1, Inr u) \<Rightarrow> (st1, Inr ()))"
proof -
  have 1: "js_get_specs st lnk srcobj tgt =
           Inr [(path_spec st srcobj (fst (last items)), (None, None), Some (snd (last items)))]"
    using assms by (simp add: js_get_specs_def js_specs_loop_last)
  have 2: "jslink_get_specs st lnk srcobj tgt = js_get_specs st lnk srcobj tgt"
    using assms by (simp add: jslink_get_specs_def code_truthy_def)
  have 3: "get_specs g st lnk srcobj tgt = js_get_specs st lnk srcobj tgt"
    using 2 by (cases g) (simp_all add: get_specs_def)
  show ?thesis
    using 1 2 3 by (simp add: generator_def split: prod.splits sum.splits)
qed

section \<open>Selection\<close>










lemma overrides_loop_unhashable:
  "(k, v) \<in> set kvs \<Longrightarrow> \<not> hashable v \<Longrightarrow> overrides_loop st kvs d = Inl TypeError"
  by (induction kvs arbitrary: d) auto

lemma overrides_table_loop_unhashable:
  "l \<in> set lnks \<Longrightarrow> (k, v) \<in> set (args l) \<Longrightarrow> \<not> hashable v \<Longrightarrow>
   \<exists>e. overrides_table_loop st lnks tbl = Inl e"
proof (induction lnks arbitrary: tbl)
  case Nil
  then show ?case by simp
next
  case (Cons x lnks)
  show ?case
  proof (cases "link_overrides st x")
    case (Inl e)
    then show ?thesis by simp
  next
    case (Inr d)
    with Cons.prems have "x \<noteq> l"
      using overrides_loop_unhashable[of k v "args l" st "[]"] by (auto simp: link_overrides_def)
    with Cons Inr show ?thesis by simp
  qed
qed


section \<open>Frame\<close>

lemma py_setattr_registry: "registry (fst (py_setattr st model a v)) = registry st"
  by (simp add: py_setattr_def split: val.splits ref.splits option.splits)

lemma jslink_initialize_models_registry:
  "registry (fst (jslink_initialize_models st lnk sm ss tm ts)) = registry st"
  using py_setattr_registry
  by (auto simp: jslink_initialize_models_def split: option.splits sum.splits prod.splits)
     (metis fst_conv)+

lemma initialize_models_registry:
  "registry (fst (initialize_models g st lnk sm ss tm ts)) = registry st"
  by (cases g) (simp_all add: initialize_models_def jslink_initialize_models_registry)

lemma js_on_change_registry: "registry (js_on_change st m ev cb) = registry st"
  by (simp add: js_on_change_def Let_def)

lemma attach_changes_registry: "registry (fst (attach_changes st m chs cb)) = registry st"
  by (induction chs arbitrary: st) (auto simp: js_on_change_registry split: option.splits)

lemma init_callback_registry:
  "registry (fst (init_callback g st root lnk srcobj ss tgt ts cde ov)) = registry st"
proof -
  have a: "\<And>st1 r sm tm. initialize_models g st lnk sm (snd ss) tm (snd ts) = (st1, r) \<Longrightarrow>
            registry st1 = registry st"
    using initialize_models_registry by (metis fst_conv)
  show ?thesis
    unfolding init_callback_def
    by (auto split: sum.splits val.splits ref.splits prod.splits option.splits
             simp: attach_changes_registry dest: a)
qed

lemma init_callbacks_registry:
  "registry (fst (init_callbacks g st root lnk srcobj tgt ov specs)) = registry st"
proof (induction specs arbitrary: st)
  case Nil
  then show ?case by simp
next
  case (Cons sp specs)
  obtain ss ts cde where sp: "sp = (ss, ts, cde)" by (cases sp)
  obtain st1 r where ic: "init_callback g st root lnk srcobj ss tgt ts cde ov = (st1, r)"
    by (cases "init_callback g st root lnk srcobj ss tgt ts cde ov")
  then have "registry st1 = registry st" using init_callback_registry by (metis fst_conv)
  with Cons ic sp show ?case by (cases r) simp_all
qed

lemma generator_registry:
  "registry (fst (generator g st root lnk srcobj tgt ov)) = registry st"
  by (simp add: generator_def init_callbacks_registry split: sum.splits)

lemma emit_loop_registry:
  "registry (fst (emit_loop st root tbl found callbacks)) = registry st"
proof (induction found arbitrary: st callbacks)
  case Nil
  then show ?case by simp
next
  case (Cons t found)
  obtain lnk src tg where t: "t = (lnk, src, tg)" by (cases t)
  let ?ov = "case map_of tbl (cid lnk) of None \<Rightarrow> [] | Some d \<Rightarrow> d"
  obtain st1 r where g: "generator (callbacks_table (ctype lnk)) st root lnk (VRef src) (oval tg) ?ov = (st1, r)"
    by (cases "generator (callbacks_table (ctype lnk)) st root lnk (VRef src) (oval tg) ?ov")
  then have "registry st1 = registry st" using generator_registry by (metis fst_conv)
  with Cons g t show ?case by (cases r) simp_all
qed

text \<open>
  Claim C8.  Whatever the root view, the root model and the state are, the registry after
  \<open>_process_callbacks\<close> is the registry before it, also when the pass ends in an error.
  With no root model the pass returns \<open>None\<close> at once and leaves the whole state as it
  was, and it does so whatever the registry holds: the registry is not consulted.
\<close>

theorem process_callbacks_registry_frame:
  "registry (fst (process_callbacks st root_view root_model)) = registry st \<and>
   process_callbacks st root_view None = (st, Inr None) \<and>
   process_callbacks (st\<lparr>registry := reg\<rparr>) root_view None = (st\<lparr>registry := reg\<rparr>, Inr None)"
proof -
  have "registry (fst (process_callbacks st root_view root_model)) = registry st"
  proof (cases root_model)
    case None
    then show ?thesis by (simp add: process_callbacks_def)
  next
    case (Some root)
    let ?l = "linkable_of st root_view root"
    show ?thesis
    proof (cases "arg_overrides_of st ?l")
      case (Inl e)
      with Some show ?thesis by (simp add: process_callbacks_def Let_def)
    next
      case (Inr tbl)
      obtain st1 r where e: "emit_loop st root tbl (found_of st ?l) [] = (st1, r)"
        by (cases "emit_loop st root tbl (found_of st ?l) []")
      then have "registry st1 = registry st" using emit_loop_registry by (metis fst_conv)
      with e Some Inr show ?thesis
        by (cases r) (simp_all add: process_callbacks_def Let_def)
    qed
  qed
  then show ?thesis by (simp add: process_callbacks_def)
qed

section \<open>Witnesses in the example worlds\<close>

lemmas exw_defs = ex_world_def ex_link_def ex_link_unresolved_def ex_callback_def new_instance_def
  ex_linkable_def ex_world_abort_def

theorem js_get_specs_last_entry_witness:
  "code ex_callback = Some [(''title'', ''a();''), (''text'', ''b();'')] \<and>
   [(''title'', ''a();''), (''text'', ''b();'')] \<noteq> ([] :: (string \<times> string) list) \<and>
   js_get_specs (ex_world Map.empty) ex_callback (VRef (View 2)) VNone =
     Inr [((None, Some ''text''), (None, None), Some ''b();'')]"
proof -
  have h: "code ex_callback = Some [(''title'', ''a();''), (''text'', ''b();'')]"
    "[(''title'', ''a();''), (''text'', ''b();'')] \<noteq> ([] :: (string \<times> string) list)"
    by (simp_all add: exw_defs)
  have p: "path_spec (ex_world Map.empty) (VRef (View 2)) ''text'' = (None, Some ''text'')"
    by (simp add: path_spec_def rename_prop_def ex_world_def)
  from js_get_specs_last_entry[OF h, of "ex_world Map.empty" "VRef (View 2)" VNone] h p
  show ?thesis by simp
qed

lemmas exhv_defs = ex_world_hv_def ex_world_def ex_registry_hv_def ex_link_hv_def ex_link_far_def
  new_instance_def ex_linkable_def


theorem process_callbacks_registry_frame_witness:
  "registry (fst (process_callbacks (ex_world (Map.empty(View 1 \<mapsto> [ex_link]))) 0 (Some 100)))
     = Map.empty(View 1 \<mapsto> [ex_link]) \<and>
   process_callbacks (ex_world (Map.empty(View 1 \<mapsto> [ex_link]))) 0 None
     = (ex_world (Map.empty(View 1 \<mapsto> [ex_link])), Inr None)"
  using process_callbacks_registry_frame[of "ex_world (Map.empty(View 1 \<mapsto> [ex_link]))" 0 "Some 100" Map.empty]
  by (simp add: ex_world_def)

section \<open>An error ends the pass\<close>












section \<open>The deduplication guard across passes\<close>

subsection \<open>A successful pass settles its triples\<close>






subsection \<open>A pass over settled triples changes nothing\<close>








end
